theory Spec2Isabelle
  imports Complex_Main
begin

section \<open>Data model\<close>

text \<open>
  The SQLAlchemy models of \<^verbatim>\<open>app/models/__init__.py\<close>. Isabelle record fields are
  global names, so every column carries the prefix of its table: \<open>e_\<close> for
  \<^verbatim>\<open>Equipment\<close>, \<open>s_\<close> for \<^verbatim>\<open>Sensor\<close>, \<open>d_\<close> for a \<^verbatim>\<open>SensorData\<close> row as the
  protocol clients insert it, \<open>p_\<close> for a \<^verbatim>\<open>SensorData\<close> object as the endpoints read
  it (with its \<^verbatim>\<open>equipment\<close> and \<^verbatim>\<open>sensor\<close> relationships loaded).

  A \<^verbatim>\<open>datetime\<close> is a count of microseconds (the resolution of Python's datetime);
  the range limits of datetime and timedelta are not modelled.
\<close>

type_synonym datetime = int

definition total_seconds :: "int \<Rightarrow> real" where
  "total_seconds delta = real_of_int delta / 1000000"

definition timedelta_hours :: "int \<Rightarrow> int" where
  "timedelta_hours h = h * 3600 * 1000000"

text \<open>
  A Python float as the ingestion path sees it: a finite number (read as a real; rounding
  is not modelled) or one of the three special values.
\<close>

datatype pyfloat = Finite real | PosInf | NegInf | NaN

text \<open>What \<^verbatim>\<open>json.loads\<close> returns. Python's parser accepts the literals NaN, Infinity
  and -Infinity and returns the corresponding floats.\<close>

datatype json =
    JNull
  | JBool bool
  | JInt int
  | JFloat pyfloat
  | JStr string
  | JList "json list"
  | JObj "(string \<times> json) list"

record equipment =
  e_id :: int
  e_equipment_id :: string
  e_name :: string
  e_protocol :: string
  e_is_active :: bool
  e_is_connected :: bool
  e_last_heartbeat :: "datetime option"

record sensor =
  s_id :: int
  s_sensor_id :: string
  s_equipment_id :: int
  s_type :: string
  s_unit :: string
  s_min_value :: "real option"
  s_max_value :: "real option"
  s_warning_threshold :: "real option"
  s_critical_threshold :: "real option"
  s_is_active :: bool

text \<open>The columns that the protocol clients set when they create a \<^verbatim>\<open>SensorData\<close>
  row; the columns the database fills in (primary key, defaults) are left out.\<close>

record sensor_data =
  d_equipment_id :: int
  d_sensor_id :: int
  d_value :: pyfloat
  d_quality :: json
  d_timestamp :: datetime
  d_source_protocol :: string

record database =
  db_equipment :: "equipment list"
  db_sensors :: "sensor list"
  db_sensor_data :: "sensor_data list"

text \<open>A stored reading as the analytics endpoints see it: the result rows of
  \<^verbatim>\<open>db.query(SensorData).join(Equipment).join(Sensor)\<close>. The analytics read the value
  as a real number.\<close>

record point =
  p_equipment :: equipment
  p_sensor :: sensor
  p_value :: real
  p_quality :: string
  p_timestamp :: datetime

section \<open>Anomaly detection (\<^verbatim>\<open>endpoints/data.py\<close>, \<^verbatim>\<open>detect_anomalies\<close>)\<close>

record anomaly_detection_request =
  r_equipment_ids :: "string list option"
  r_sensor_types :: "string list option"
  r_lookback_hours :: int
  r_threshold_multiplier :: real

record anomaly =
  a_equipment_id :: string
  a_sensor_type :: string
  a_value :: real
  a_expected_range :: "real \<times> real"
  a_deviation :: real
  a_timestamp :: datetime
  a_severity :: string

record agg_row =
  g_equipment_id :: string
  g_sensor_type :: string
  g_time_bucket :: datetime
  g_value :: real

record raw_row =
  w_equipment_id :: string
  w_sensor_type :: string
  w_value :: real
  w_timestamp :: datetime
  w_quality :: string

text \<open>The values of a response dictionary; a response is a list of (key, value) pairs
  in the order of the dictionary literal.\<close>

datatype pyval =
    PStr string
  | PFloat real
  | PInt int
  | PTime datetime
  | PNone
  | PAnomalies "anomaly list"
  | PAggregates "agg_row list"
  | PRaw "raw_row list"
  | PDict "(string \<times> pyval) list"

type_synonym response = "(string \<times> pyval) list"

definition keys :: "response \<Rightarrow> string list" where
  "keys r = map fst r"

text \<open>Python's truth value of an optional list: \<^verbatim>\<open>None\<close> and \<^verbatim>\<open>[]\<close> are false.\<close>

fun truthy_list :: "'a list option \<Rightarrow> bool" where
  "truthy_list None = False"
| "truthy_list (Some xs) = (xs \<noteq> [])"

text \<open>A filter \<^verbatim>\<open>column.in_(xs)\<close> that is applied only when \<open>xs\<close> is truthy.\<close>

definition in_filter :: "string list option \<Rightarrow> string \<Rightarrow> bool" where
  "in_filter xs x = (if truthy_list xs then x \<in> set (the xs) else True)"

definition anomaly_scope :: "anomaly_detection_request \<Rightarrow> datetime \<Rightarrow> point \<Rightarrow> bool" where
  "anomaly_scope request start_time p =
     (start_time \<le> p_timestamp p
      \<and> in_filter (r_equipment_ids request) (e_equipment_id (p_equipment p))
      \<and> in_filter (r_sensor_types request) (s_type (p_sensor p)))"

text \<open>The dictionary key \<^verbatim>\<open>f"{point.equipment.equipment_id}_{point.sensor.type}"\<close>.\<close>

definition group_key :: "point \<Rightarrow> string" where
  "group_key p = e_equipment_id (p_equipment p) @ ''_'' @ s_type (p_sensor p)"

text \<open>\<^verbatim>\<open>grouped_data\<close>: a dictionary in insertion order, each key with the points
  appended to it in the order of the scan. \<open>group_by\<close> is the same loop for any key.\<close>

fun group_append :: "'k \<Rightarrow> point \<Rightarrow> ('k \<times> point list) list \<Rightarrow> ('k \<times> point list) list" where
  "group_append k p [] = [(k, [p])]"
| "group_append k p ((k', ps) # g) =
     (if k = k' then (k', ps @ [p]) # g else (k', ps) # group_append k p g)"

definition group_by :: "(point \<Rightarrow> 'k) \<Rightarrow> point list \<Rightarrow> ('k \<times> point list) list" where
  "group_by key rows = foldl (\<lambda>g p. group_append (key p) p g) [] rows"

definition grouped_data :: "point list \<Rightarrow> (string \<times> point list) list" where
  "grouped_data data_points = group_by group_key data_points"

text \<open>\<^verbatim>\<open>np.mean\<close> and \<^verbatim>\<open>np.std\<close> in exact arithmetic: the sum, the quotient and the
  root are those of the real numbers. numpy computes them in IEEE doubles and rounds
  each step; the rounding is not modelled. A property that depends on the exact value of
  a computed mean or deviation therefore takes that value as a hypothesis.\<close>

definition np_mean :: "real list \<Rightarrow> real" where
  "np_mean vs = sum_list vs / real (length vs)"

text \<open>\<^verbatim>\<open>np.std\<close> with its default \<^verbatim>\<open>ddof=0\<close>: the population standard deviation.\<close>

definition np_std :: "real list \<Rightarrow> real" where
  "np_std vs = sqrt (np_mean (map (\<lambda>x. \<bar>x - np_mean vs\<bar> ^ 2) vs))"

text \<open>The division of the deviation score. numpy reports a zero divisor by a warning and
  a non-finite quotient; the model makes that event a value of its own, so that a result
  \<open>Inr\<close> says no division by zero was executed.\<close>

datatype fault = DivisionByZero

definition divide_by :: "real \<Rightarrow> real \<Rightarrow> fault + real" where
  "divide_by a b = (if b = 0 then Inl DivisionByZero else Inr (a / b))"

text \<open>The inner loop \<^verbatim>\<open>for point in points\<close> of one group.\<close>

fun scan_points :: "real \<Rightarrow> real \<Rightarrow> real \<Rightarrow> point list \<Rightarrow> fault + anomaly list" where
  "scan_points mean_val std_val threshold [] = Inr []"
| "scan_points mean_val std_val threshold (p # ps) =
     (if \<bar>p_value p - mean_val\<bar> > threshold then
        (case divide_by \<bar>p_value p - mean_val\<bar> std_val of
           Inl f \<Rightarrow> Inl f
         | Inr dev \<Rightarrow>
             (case scan_points mean_val std_val threshold ps of
                Inl f \<Rightarrow> Inl f
              | Inr found \<Rightarrow>
                  Inr (\<lparr> a_equipment_id = e_equipment_id (p_equipment p),
                         a_sensor_type = s_type (p_sensor p),
                         a_value = p_value p,
                         a_expected_range = (mean_val - threshold, mean_val + threshold),
                         a_deviation = dev,
                         a_timestamp = p_timestamp p,
                         a_severity = (if \<bar>p_value p - mean_val\<bar> > 3 * std_val
                                       then ''HIGH'' else ''MEDIUM'') \<rparr> # found)))
      else scan_points mean_val std_val threshold ps)"

text \<open>The body of \<^verbatim>\<open>for key, points in grouped_data.items()\<close> for a group that is
  not skipped.\<close>

definition group_anomalies :: "real \<Rightarrow> point list \<Rightarrow> fault + anomaly list" where
  "group_anomalies threshold_multiplier points =
     (let values = map p_value points;
          mean_val = np_mean values;
          std_val = np_std values;
          threshold = threshold_multiplier * std_val
      in scan_points mean_val std_val threshold points)"

fun analyse_groups :: "real \<Rightarrow> (string \<times> point list) list \<Rightarrow> fault + anomaly list" where
  "analyse_groups m [] = Inr []"
| "analyse_groups m ((key, points) # groups) =
     (if length points < 5 then analyse_groups m groups
      else (case group_anomalies m points of
              Inl f \<Rightarrow> Inl f
            | Inr found \<Rightarrow>
                (case analyse_groups m groups of
                   Inl f \<Rightarrow> Inl f
                 | Inr others \<Rightarrow> Inr (found @ others))))"

text \<open>\<^verbatim>\<open>anomalies.sort(key=lambda x: x["deviation"], reverse=True)\<close>: a stable sort,
  largest deviation first.\<close>

definition sort_by_deviation :: "anomaly list \<Rightarrow> anomaly list" where
  "sort_by_deviation anomalies = sort_key (\<lambda>a. - a_deviation a) anomalies"

text \<open>\<^verbatim>\<open>data_points = query.all()\<close>: the rows of the lookback window that pass the
  filters. \<open>now\<close> is the value of \<^verbatim>\<open>datetime.utcnow()\<close>, \<open>store\<close> the joined rows of
  the table.\<close>

definition window_points :: "datetime \<Rightarrow> point list \<Rightarrow> anomaly_detection_request \<Rightarrow> point list" where
  "window_points now store request =
     filter (anomaly_scope request (now - timedelta_hours (r_lookback_hours request))) store"

definition detect_anomalies :: "datetime \<Rightarrow> point list \<Rightarrow> anomaly_detection_request \<Rightarrow> fault + response" where
  "detect_anomalies now store request =
     (let end_time = now;
          start_time = end_time - timedelta_hours (r_lookback_hours request);
          data_points = window_points now store request
      in if length data_points < 10 then
           Inr [(''message'', PStr ''Insufficient data for anomaly detection''),
                (''anomalies'', PAnomalies [])]
         else
           (case analyse_groups (r_threshold_multiplier request) (grouped_data data_points) of
              Inl f \<Rightarrow> Inl f
            | Inr anomalies \<Rightarrow>
                Inr [(''analysis_period'',
                        PDict [(''start'', PTime start_time), (''end'', PTime end_time),
                               (''hours'', PInt (r_lookback_hours request))]),
                     (''threshold_multiplier'', PFloat (r_threshold_multiplier request)),
                     (''total_points_analyzed'', PInt (int (length data_points))),
                     (''anomalies_detected'', PInt (int (length anomalies))),
                     (''anomalies'', PAnomalies (take 50 (sort_by_deviation anomalies)))]))"

section \<open>Aggregation query (\<^verbatim>\<open>endpoints/data.py\<close>, \<^verbatim>\<open>query_sensor_data\<close>)\<close>

record data_query =
  q_equipment_ids :: "string list option"
  q_sensor_types :: "string list option"
  q_start_time :: "datetime option"
  q_end_time :: "datetime option"
  q_aggregation :: "string option"
  q_interval :: "string option"

datatype pyexc =
    ValueError
  | TypeError
  | OverflowError
  | AttributeError
  | JSONDecodeError
  | DatabaseError

text \<open>The four optional filters of the base query. Quality is not among them.\<close>

definition query_scope :: "data_query \<Rightarrow> point \<Rightarrow> bool" where
  "query_scope query p =
     (in_filter (q_equipment_ids query) (e_equipment_id (p_equipment p))
      \<and> in_filter (q_sensor_types query) (s_type (p_sensor p))
      \<and> (case q_start_time query of None \<Rightarrow> True | Some t \<Rightarrow> t \<le> p_timestamp p)
      \<and> (case q_end_time query of None \<Rightarrow> True | Some t \<Rightarrow> p_timestamp p \<le> t))"

text \<open>\<^verbatim>\<open>str.replace\<close> of one character by a string.\<close>

definition replace_char :: "char \<Rightarrow> string \<Rightarrow> string \<Rightarrow> string" where
  "replace_char c new s = concat (map (\<lambda>x. if x = c then new else [x]) s)"

definition interval_unit :: "string \<Rightarrow> string" where
  "interval_unit interval =
     replace_char CHR ''d'' '' day''
       (replace_char CHR ''m'' '' minute'' (replace_char CHR ''h'' '' hour'' interval))"

text \<open>The SQL aggregate chosen by \<^verbatim>\<open>{...}.get(query.aggregation, func.avg(...))\<close>,
  applied to the values of one (non-empty) group.\<close>

definition agg_func :: "string option \<Rightarrow> real list \<Rightarrow> real" where
  "agg_func aggregation vs =
     (if aggregation = Some ''min'' then Min (set vs)
      else if aggregation = Some ''max'' then Max (set vs)
      else if aggregation = Some ''count'' then real (length vs)
      else sum_list vs / real (length vs))"

text \<open>\<^verbatim>\<open>GROUP BY equipment_id, type, time_group\<close>. \<open>date_trunc\<close> is the database's
  function, taken as a parameter. SQL leaves the order of groups open; the model lists
  them in the order of their first row (\<open>group_by\<close>), then sorts by bucket.\<close>

definition sql_group_key :: "(string \<Rightarrow> datetime \<Rightarrow> datetime) \<Rightarrow> string \<Rightarrow> point \<Rightarrow> string \<times> string \<times> datetime" where
  "sql_group_key date_trunc unit p =
     (e_equipment_id (p_equipment p), s_type (p_sensor p), date_trunc unit (p_timestamp p))"

definition aggregate_rows :: "(string \<Rightarrow> datetime \<Rightarrow> datetime) \<Rightarrow> string option \<Rightarrow> string \<Rightarrow> point list \<Rightarrow> agg_row list" where
  "aggregate_rows date_trunc aggregation unit rows =
     map (\<lambda>((equipment_id, sensor_type, time_bucket), ps).
            \<lparr> g_equipment_id = equipment_id, g_sensor_type = sensor_type,
              g_time_bucket = time_bucket,
              g_value = agg_func aggregation (map p_value ps) \<rparr>)
         (sort_key (\<lambda>((equipment_id, sensor_type, time_bucket), ps). - time_bucket)
            (group_by (sql_group_key date_trunc unit) rows))"

definition raw_rows :: "point list \<Rightarrow> raw_row list" where
  "raw_rows rows =
     map (\<lambda>p. \<lparr> w_equipment_id = e_equipment_id (p_equipment p),
                 w_sensor_type = s_type (p_sensor p),
                 w_value = p_value p,
                 w_timestamp = p_timestamp p,
                 w_quality = p_quality p \<rparr>)
         (sort_key (\<lambda>p. - p_timestamp p) rows)"

definition opt_str :: "string option \<Rightarrow> pyval" where
  "opt_str x = (case x of None \<Rightarrow> PNone | Some s \<Rightarrow> PStr s)"

definition query_sensor_data :: "(string \<Rightarrow> datetime \<Rightarrow> datetime) \<Rightarrow> point list \<Rightarrow> data_query \<Rightarrow> nat \<Rightarrow> nat \<Rightarrow> pyexc + response" where
  "query_sensor_data date_trunc store query skip limit =
     (let base_query = filter (query_scope query) store in
      if q_aggregation query = Some ''raw'' then
        (let results = take limit (drop skip (raw_rows base_query)) in
         Inr [(''data'', PRaw results),
              (''aggregation'', PStr ''raw''),
              (''count'', PInt (int (length results)))])
      else
        (case q_interval query of
           None \<Rightarrow> Inl AttributeError
         | Some interval \<Rightarrow>
             (let results = take limit (drop skip
                    (aggregate_rows date_trunc (q_aggregation query) (interval_unit interval) base_query)) in
              Inr [(''data'', PAggregates results),
                   (''aggregation'', opt_str (q_aggregation query)),
                   (''interval'', PStr interval),
                   (''count'', PInt (int (length results)))])))"

section \<open>Monitoring (\<^verbatim>\<open>endpoints/monitoring.py\<close>)\<close>

text \<open>Python's truth value of an optional float: \<^verbatim>\<open>None\<close> and \<^verbatim>\<open>0.0\<close> are false.\<close>

fun truthy_float :: "real option \<Rightarrow> bool" where
  "truthy_float None = False"
| "truthy_float (Some x) = (x \<noteq> 0)"

text \<open>\<^verbatim>\<open>threshold and value > threshold\<close>: the comparison runs only for a truthy
  threshold.\<close>

definition and_greater :: "real option \<Rightarrow> real \<Rightarrow> bool" where
  "and_greater threshold v = (truthy_float threshold \<and> v > the threshold)"

text \<open>The status of one latest reading in \<^verbatim>\<open>get_realtime_data\<close>.\<close>

definition reading_status :: "sensor \<Rightarrow> real \<Rightarrow> string" where
  "reading_status sensor v =
     (if and_greater (s_critical_threshold sensor) v then ''CRITICAL''
      else if and_greater (s_warning_threshold sensor) v then ''WARNING''
      else ''NORMAL'')"

definition realtime_statuses :: "point list \<Rightarrow> (string \<times> string) list" where
  "realtime_statuses latest_readings =
     map (\<lambda>reading. (s_sensor_id (p_sensor reading),
                      reading_status (p_sensor reading) (p_value reading)))
         latest_readings"

text \<open>A threshold of zero read as no threshold: the reading of the status rule that the
  status computation is compared with.\<close>

definition absent_if_zero :: "real option \<Rightarrow> real option" where
  "absent_if_zero threshold = (if threshold = Some 0 then None else threshold)"

text \<open>\<^verbatim>\<open>get_equipment_health\<close>: seconds since the last heartbeat, when there is one.\<close>

definition time_since_heartbeat :: "datetime \<Rightarrow> equipment \<Rightarrow> real option" where
  "time_since_heartbeat now equipment =
     (case e_last_heartbeat equipment of
        None \<Rightarrow> None
      | Some hb \<Rightarrow> Some (total_seconds (now - hb)))"

definition health_status :: "datetime \<Rightarrow> equipment \<Rightarrow> string" where
  "health_status now equipment =
     (let tsh = time_since_heartbeat now equipment in
      if e_is_connected equipment then
        (if truthy_float tsh \<and> the tsh < 300 then ''HEALTHY'' else ''DEGRADED'')
      else ''OFFLINE'')"

definition get_equipment_health :: "datetime \<Rightarrow> database \<Rightarrow> (string \<times> string) list" where
  "get_equipment_health now db =
     map (\<lambda>equipment. (e_equipment_id equipment, health_status now equipment))
         (filter e_is_active (db_equipment db))"

text \<open>The rule of the specification: the three states by connection and freshness, the
  heartbeat fresh when it is at most \<open>window\<close> seconds old.\<close>

definition deriveHealth :: "datetime \<Rightarrow> real \<Rightarrow> equipment \<Rightarrow> string" where
  "deriveHealth now window equipment =
     (if \<not> e_is_connected equipment then ''OFFLINE''
      else (case e_last_heartbeat equipment of
              None \<Rightarrow> ''DEGRADED''
            | Some hb \<Rightarrow>
                if total_seconds (now - hb) < window then ''HEALTHY'' else ''DEGRADED''))"

section \<open>Ingestion (\<^verbatim>\<open>services/protocols\<close>)\<close>

datatype log_entry =
    EquipmentNotFound string
  | SensorNotFound string string
  | CannotConvert string
  | Stored string string pyfloat
  | ErrorStoring pyexc
  | ErrorHandling pyexc

text \<open>What a call leaves behind: the database states that its successive
  \<^verbatim>\<open>db.commit()\<close> calls made visible, in order, and the log lines it wrote.\<close>

record outcome =
  committed :: "database list"
  logged :: "log_entry list"

definition final_state :: "database \<Rightarrow> outcome \<Rightarrow> database" where
  "final_state db out = (if committed out = [] then db else last (committed out))"

text \<open>What the code takes from its environment: Python's parser of float literals
  (\<^verbatim>\<open>float(str)\<close>, \<open>None\<close> for a \<^verbatim>\<open>ValueError\<close>), \<^verbatim>\<open>datetime.fromisoformat\<close>,
  whether the first and the second \<^verbatim>\<open>db.commit()\<close> succeed, and the two readings
  of the clock: \<open>arrival\<close> in the message handler, \<open>utcnow\<close> at the heartbeat update.\<close>

record runtime =
  float_of_str :: "string \<Rightarrow> pyfloat option"
  fromisoformat :: "string \<Rightarrow> datetime option"
  commit1_ok :: bool
  commit2_ok :: bool
  arrival :: datetime
  utcnow :: datetime

text \<open>\<^verbatim>\<open>query.filter(...).first()\<close>.\<close>

definition find_equipment :: "database \<Rightarrow> string \<Rightarrow> equipment option" where
  "find_equipment db equipment_id =
     find (\<lambda>e. e_equipment_id e = equipment_id) (db_equipment db)"

definition find_sensor :: "database \<Rightarrow> equipment \<Rightarrow> string \<Rightarrow> sensor option" where
  "find_sensor db equipment sensor_type =
     find (\<lambda>s. s_equipment_id s = e_id equipment \<and> s_type s = sensor_type) (db_sensors db)"

definition mark_seen :: "datetime \<Rightarrow> equipment \<Rightarrow> equipment list \<Rightarrow> equipment list" where
  "mark_seen now equipment rows =
     map (\<lambda>e. if e_id e = e_id equipment
               then e\<lparr> e_last_heartbeat := Some now, e_is_connected := True \<rparr>
               else e) rows"

text \<open>\<^verbatim>\<open>_store_sensor_data\<close>, the same method in \<^verbatim>\<open>MQTTService\<close> and
  \<^verbatim>\<open>OPCUAService\<close>. An exception inside the \<^verbatim>\<open>with\<close> block is logged; what was
  not committed is lost with the session.\<close>

definition store_sensor_data ::
  "runtime \<Rightarrow> database \<Rightarrow> string \<Rightarrow> string \<Rightarrow> pyfloat \<Rightarrow> datetime \<Rightarrow> json \<Rightarrow> string \<Rightarrow> outcome" where
  "store_sensor_data rt db equipment_id sensor_type val timestamp quality source_protocol =
     (case find_equipment db equipment_id of
        None \<Rightarrow> \<lparr> committed = [], logged = [EquipmentNotFound equipment_id] \<rparr>
      | Some equipment \<Rightarrow>
          (case find_sensor db equipment sensor_type of
             None \<Rightarrow> \<lparr> committed = [], logged = [SensorNotFound equipment_id sensor_type] \<rparr>
           | Some sensor \<Rightarrow>
               (let row = \<lparr> d_equipment_id = e_id equipment,
                             d_sensor_id = s_id sensor,
                             d_value = val,
                             d_quality = quality,
                             d_timestamp = timestamp,
                             d_source_protocol = source_protocol \<rparr>;
                    db1 = db\<lparr> db_sensor_data := db_sensor_data db @ [row] \<rparr>;
                    db2 = db1\<lparr> db_equipment := mark_seen (utcnow rt) equipment (db_equipment db1) \<rparr>
                in if \<not> commit1_ok rt then
                     \<lparr> committed = [], logged = [ErrorStoring DatabaseError] \<rparr>
                   else if \<not> commit2_ok rt then
                     \<lparr> committed = [db1], logged = [ErrorStoring DatabaseError] \<rparr>
                   else
                     \<lparr> committed = [db1, db2],
                       logged = [Stored equipment_id sensor_type val] \<rparr>)))"

subsection \<open>MQTT\<close>

text \<open>\<^verbatim>\<open>str.split('/')\<close>.\<close>

fun split_on :: "char \<Rightarrow> string \<Rightarrow> string list" where
  "split_on c [] = [[]]"
| "split_on c (x # xs) =
     (if x = c then [] # split_on c xs
      else (case split_on c xs of
              [] \<Rightarrow> [[x]]
            | w # ws \<Rightarrow> (x # w) # ws))"

text \<open>\<^verbatim>\<open>float(int)\<close> raises \<^verbatim>\<open>OverflowError\<close> beyond the range of a double.\<close>

definition int_too_large :: "int \<Rightarrow> bool" where
  "int_too_large i = (2 ^ 1024 - 2 ^ 970 \<le> \<bar>i\<bar>)"

text \<open>\<^verbatim>\<open>float(value)\<close> on a JSON value.\<close>

fun py_float :: "(string \<Rightarrow> pyfloat option) \<Rightarrow> json \<Rightarrow> pyexc + pyfloat" where
  "py_float sf JNull = Inl TypeError"
| "py_float sf (JBool b) = Inr (Finite (if b then 1 else 0))"
| "py_float sf (JInt i) =
     (if int_too_large i then Inl OverflowError else Inr (Finite (real_of_int i)))"
| "py_float sf (JFloat f) = Inr f"
| "py_float sf (JStr s) = (case sf s of None \<Rightarrow> Inl ValueError | Some f \<Rightarrow> Inr f)"
| "py_float sf (JList xs) = Inl TypeError"
| "py_float sf (JObj kv) = Inl TypeError"

text \<open>A JSON object as a Python dictionary: of two equal keys the later one counts.\<close>

definition dict_get :: "(string \<times> json) list \<Rightarrow> string \<Rightarrow> json option" where
  "dict_get kv k = map_of (rev kv) k"

text \<open>\<^verbatim>\<open>datetime.fromisoformat(timestamp.replace('Z', '+00:00'))\<close> on
  \<^verbatim>\<open>payload.get('timestamp', datetime.utcnow().isoformat())\<close>. The default is the
  clock's own text, which parses back to the clock's value.\<close>

definition payload_timestamp :: "runtime \<Rightarrow> (string \<times> json) list \<Rightarrow> pyexc + datetime" where
  "payload_timestamp rt payload =
     (case dict_get payload ''timestamp'' of
        None \<Rightarrow> Inr (arrival rt)
      | Some (JStr s) \<Rightarrow>
          (case fromisoformat rt (replace_char CHR ''Z'' ''+00:00'' s) of
             None \<Rightarrow> Inl ValueError
           | Some t \<Rightarrow> Inr t)
      | Some other \<Rightarrow> Inl AttributeError)"

text \<open>An MQTT message: its topic, and what \<^verbatim>\<open>json.loads(message.payload.decode())\<close>
  returns (\<open>None\<close> when it raises).\<close>

record mqtt_message =
  m_topic :: string
  m_payload :: "json option"

definition nothing :: outcome where
  "nothing = \<lparr> committed = [], logged = [] \<rparr>"

definition handler_error :: "pyexc \<Rightarrow> outcome" where
  "handler_error e = \<lparr> committed = [], logged = [ErrorHandling e] \<rparr>"

text \<open>\<^verbatim>\<open>MQTTService._handle_message\<close>.\<close>

definition handle_message :: "runtime \<Rightarrow> database \<Rightarrow> mqtt_message \<Rightarrow> outcome" where
  "handle_message rt db message =
     (let topic_parts = split_on CHR ''/'' (m_topic message) in
      if 3 \<le> length topic_parts then
        (let equipment_id = topic_parts ! 1;
             sensor_type = topic_parts ! 2
         in case m_payload message of
              None \<Rightarrow> handler_error JSONDecodeError
            | Some (JObj payload) \<Rightarrow>
                (let val = (case dict_get payload ''value'' of None \<Rightarrow> JNull | Some v \<Rightarrow> v);
                     quality = (case dict_get payload ''quality'' of
                                  None \<Rightarrow> JStr ''GOOD'' | Some q \<Rightarrow> q)
                 in if val \<noteq> JNull then
                      (case py_float (float_of_str rt) val of
                         Inl e \<Rightarrow> handler_error e
                       | Inr x \<Rightarrow>
                           (case payload_timestamp rt payload of
                              Inl e \<Rightarrow> handler_error e
                            | Inr timestamp \<Rightarrow>
                                store_sensor_data rt db equipment_id sensor_type x
                                  timestamp quality ''MQTT''))
                    else nothing)
            | Some other \<Rightarrow> handler_error AttributeError)
      else nothing)"

subsection \<open>OPC UA\<close>

text \<open>A value delivered by a subscription: an \<^verbatim>\<open>int\<close>, a \<^verbatim>\<open>bool\<close>, a \<^verbatim>\<open>float\<close>, or
  any other object, given by its \<^verbatim>\<open>str(value)\<close>.\<close>

datatype ua_value = UInt int | UBool bool | UFloat pyfloat | UOther string

text \<open>\<^verbatim>\<open>OPCUAService._process_node_data\<close>. \<open>monitored_nodes\<close> maps a node id to the
  equipment id and sensor type recorded for it.\<close>

definition process_node_data ::
  "runtime \<Rightarrow> database \<Rightarrow> (string \<rightharpoonup> string \<times> string) \<Rightarrow> string \<Rightarrow> ua_value \<Rightarrow> datetime \<Rightarrow> outcome" where
  "process_node_data rt db monitored_nodes node_id val timestamp =
     (case monitored_nodes node_id of
        None \<Rightarrow> nothing
      | Some (equipment_id, sensor_type) \<Rightarrow>
          (case val of
             UInt i \<Rightarrow>
               (if int_too_large i then handler_error OverflowError
                else store_sensor_data rt db equipment_id sensor_type (Finite (real_of_int i))
                       timestamp (JStr ''GOOD'') ''OPC_UA'')
           | UBool b \<Rightarrow>
               store_sensor_data rt db equipment_id sensor_type (Finite (if b then 1 else 0))
                 timestamp (JStr ''GOOD'') ''OPC_UA''
           | UFloat f \<Rightarrow>
               store_sensor_data rt db equipment_id sensor_type f
                 timestamp (JStr ''GOOD'') ''OPC_UA''
           | UOther s \<Rightarrow>
               (case float_of_str rt s of
                  None \<Rightarrow> \<lparr> committed = [], logged = [CannotConvert s] \<rparr>
                | Some f \<Rightarrow>
                    store_sensor_data rt db equipment_id sensor_type f
                      timestamp (JStr ''GOOD'') ''OPC_UA'')))"

text \<open>The hints of an event resolve when some equipment row has the equipment id and some
  sensor row of that equipment has the sensor type. The active flags play no part.\<close>

definition resolvable :: "database \<Rightarrow> string \<Rightarrow> string \<Rightarrow> bool" where
  "resolvable db equipment_id sensor_type =
     list_ex (\<lambda>e. e_equipment_id e = equipment_id
                \<and> list_ex (\<lambda>s. s_equipment_id s = e_id e \<and> s_type s = sensor_type)
                      (db_sensors db))
       (db_equipment db)"

section \<open>Example data\<close>

definition ex_equipment :: "string \<Rightarrow> bool \<Rightarrow> equipment" where
  "ex_equipment equipment_id active =
     \<lparr> e_id = 1, e_equipment_id = equipment_id, e_name = ''Pump'', e_protocol = ''MQTT'',
       e_is_active = active, e_is_connected = False, e_last_heartbeat = None \<rparr>"

definition ex_sensor :: "string \<Rightarrow> bool \<Rightarrow> sensor" where
  "ex_sensor sensor_type active =
     \<lparr> s_id = 7, s_sensor_id = ''S7'', s_equipment_id = 1, s_type = sensor_type,
       s_unit = ''C'', s_min_value = None, s_max_value = None,
       s_warning_threshold = None, s_critical_threshold = None, s_is_active = active \<rparr>"

definition ex_point :: "string \<Rightarrow> string \<Rightarrow> real \<Rightarrow> string \<Rightarrow> datetime \<Rightarrow> point" where
  "ex_point equipment_id sensor_type v q t =
     \<lparr> p_equipment = ex_equipment equipment_id True, p_sensor = ex_sensor sensor_type True,
       p_value = v, p_quality = q, p_timestamp = t \<rparr>"

definition ex_db :: "bool \<Rightarrow> database" where
  "ex_db active =
     \<lparr> db_equipment = [ex_equipment ''EQ1'' active],
       db_sensors = [ex_sensor ''temperature'' active],
       db_sensor_data = [] \<rparr>"

definition ex_rt :: runtime where
  "ex_rt = \<lparr> float_of_str = (\<lambda>s. None), fromisoformat = (\<lambda>s. None),
             commit1_ok = True, commit2_ok = True, arrival = 500, utcnow = 600 \<rparr>"



text \<open>The row that the examples write, with the given value, time and protocol.\<close>

definition ex_row :: "pyfloat \<Rightarrow> datetime \<Rightarrow> string \<Rightarrow> sensor_data" where
  "ex_row v t protocol =
     \<lparr> d_equipment_id = 1, d_sensor_id = 7, d_value = v, d_quality = JStr ''GOOD'',
       d_timestamp = t, d_source_protocol = protocol \<rparr>"

text \<open>A \<open>date_trunc\<close> for the examples: the start of the hour, whatever the unit.\<close>

definition hour_trunc :: "string \<Rightarrow> datetime \<Rightarrow> datetime" where
  "hour_trunc unit t = t - t mod 3600000000"

definition ex_query :: "string \<Rightarrow> data_query" where
  "ex_query aggregation =
     \<lparr> q_equipment_ids = None, q_sensor_types = None, q_start_time = None,
       q_end_time = None, q_aggregation = Some aggregation, q_interval = Some ''1h'' \<rparr>"

definition ex_request :: "real \<Rightarrow> anomaly_detection_request" where
  "ex_request multiplier =
     \<lparr> r_equipment_ids = None, r_sensor_types = None, r_lookback_hours = 24,
       r_threshold_multiplier = multiplier \<rparr>"

text \<open>Six readings of one group, and ten readings in three groups of four, four and
  two.\<close>

definition spike_group :: "point list" where
  "spike_group = map (\<lambda>v. ex_point ''EQ1'' ''temperature'' v ''GOOD'' 0) [10, 10, 10, 10, 10, 100]"

definition scattered_store :: "point list" where
  "scattered_store =
     map (\<lambda>v. ex_point ''EQ1'' ''temperature'' v ''GOOD'' 0) [1, 2, 3, 400]
     @ map (\<lambda>v. ex_point ''EQ2'' ''temperature'' v ''GOOD'' 0) [1, 2, 3, 400]
     @ map (\<lambda>v. ex_point ''EQ3'' ''temperature'' v ''GOOD'' 0) [1, 400]"

text \<open>Readings of equipment EQ1 from temperature sensors with different ids: eight
  readings of 10 from sensor 7 and two readings of 100 from sensor 8; and four readings of
  10 from sensor 7, four from sensor 8, and the readings 10 and 100 from sensor 9.\<close>

definition ex_reading :: "int \<Rightarrow> string \<Rightarrow> real \<Rightarrow> datetime \<Rightarrow> point" where
  "ex_reading sensor_pk sensor_id v t =
     \<lparr> p_equipment = ex_equipment ''EQ1'' True,
       p_sensor = (ex_sensor ''temperature'' True)\<lparr> s_id := sensor_pk, s_sensor_id := sensor_id \<rparr>,
       p_value = v, p_quality = ''GOOD'', p_timestamp = t \<rparr>"

definition two_sensor_store :: "point list" where
  "two_sensor_store =
     map (ex_reading 7 ''S7'' 10) [1, 2, 3, 4, 5, 6, 7, 8]
     @ map (ex_reading 8 ''S8'' 100) [9, 10]"

definition three_sensor_store :: "point list" where
  "three_sensor_store =
     map (ex_reading 7 ''S7'' 10) [1, 2, 3, 4]
     @ map (ex_reading 8 ''S8'' 10) [5, 6, 7, 8]
     @ [ex_reading 9 ''S9'' 10 9, ex_reading 9 ''S9'' 100 10]"

text \<open>The number of readings that come from the same equipment and the same sensor as
  \<open>p\<close>.\<close>

definition sensor_group_size :: "point list \<Rightarrow> point \<Rightarrow> nat" where
  "sensor_group_size rows p =
     length (filter (\<lambda>q. e_id (p_equipment q) = e_id (p_equipment p)
                         \<and> s_id (p_sensor q) = s_id (p_sensor p)) rows)"

text \<open>One good and one bad reading of the same sensor in the same bucket.\<close>

definition mixed_quality_store :: "point list" where
  "mixed_quality_store =
     [ex_point ''EQ1'' ''temperature'' 1 ''GOOD'' 0, ex_point ''EQ1'' ''temperature'' 3 ''BAD'' 0]"

section \<open>Anomaly detection: statistics of a group\<close>

lemma sum_list_all_zero:
  fixes f :: "real \<Rightarrow> real"
  shows "\<forall>x\<in>set xs. f x = 0 \<Longrightarrow> sum_list (map f xs) = 0"
  by (induction xs) auto

lemma sum_list_nonneg_zero:
  fixes xs :: "real list"
  assumes "\<forall>x\<in>set xs. 0 \<le> x" and "sum_list xs = 0" and "x \<in> set xs"
  shows "x = 0"
  using assms
proof (induction xs)
  case Nil
  then show ?case by simp
next
  case (Cons a xs)
  have "0 \<le> sum_list xs" using Cons.prems(1) by (simp add: sum_list_nonneg)
  moreover have "0 \<le> a" using Cons.prems(1) by simp
  ultimately have "a = 0 \<and> sum_list xs = 0" using Cons.prems(2) by simp
  then show ?case using Cons by auto
qed

text \<open>A standard deviation of zero means every value is the mean.\<close>

lemma np_std_zero_mean:
  assumes "np_std vs = 0" and "v \<in> set vs"
  shows "v = np_mean vs"
proof -
  let ?sq = "map (\<lambda>x. \<bar>x - np_mean vs\<bar> ^ 2) vs"
  have len: "0 < length vs" using assms(2) by (cases vs) auto
  have "np_mean ?sq = 0" using assms(1) by (simp add: np_std_def)
  then have "sum_list ?sq = 0" using len by (simp add: np_mean_def)
  moreover have "\<forall>x\<in>set ?sq. 0 \<le> x" by auto
  moreover have "\<bar>v - np_mean vs\<bar> ^ 2 \<in> set ?sq" using assms(2) by auto
  ultimately have "\<bar>v - np_mean vs\<bar> ^ 2 = 0"
    using sum_list_nonneg_zero[of ?sq "\<bar>v - np_mean vs\<bar> ^ 2"] by blast
  then show ?thesis by simp
qed

lemma np_mean_constant:
  assumes "\<forall>v\<in>set vs. v = c" and "vs \<noteq> []"
  shows "np_mean vs = c"
proof -
  have "sum_list vs = real (length vs) * c"
    using assms(1) by (induction vs) (auto simp: algebra_simps)
  then show ?thesis using assms(2) by (simp add: np_mean_def)
qed

lemma np_std_constant:
  assumes "\<forall>v\<in>set vs. v = c"
  shows "np_std vs = 0"
proof (cases "vs = []")
  case True
  then show ?thesis by (simp add: np_std_def np_mean_def)
next
  case False
  have m: "np_mean vs = c" using assms False by (rule np_mean_constant)
  have "\<forall>x\<in>set vs. \<bar>x - np_mean vs\<bar> ^ 2 = 0" using assms m by simp
  then have "sum_list (map (\<lambda>x. \<bar>x - np_mean vs\<bar> ^ 2) vs) = 0" by (rule sum_list_all_zero)
  then have "np_mean (map (\<lambda>x. \<bar>x - np_mean vs\<bar> ^ 2) vs) = 0"
    unfolding np_mean_def[of "map _ _"] by simp
  then show ?thesis unfolding np_std_def by simp
qed

lemma scan_points_below:
  "\<forall>p\<in>set ps. \<not> \<bar>p_value p - mean_val\<bar> > threshold \<Longrightarrow>
   scan_points mean_val std_val threshold ps = Inr []"
  by (induction ps) auto

text \<open>The scan of a group divides by the deviation only where the deviation is not
  zero, so it never ends in a fault.\<close>

lemma scan_points_total:
  "\<forall>p\<in>set ps. \<bar>p_value p - mean_val\<bar> > threshold \<longrightarrow> std_val \<noteq> 0 \<Longrightarrow>
   \<exists>found. scan_points mean_val std_val threshold ps = Inr found"
proof (induction ps)
  case Nil
  then show ?case by simp
next
  case (Cons p ps)
  then obtain found where "scan_points mean_val std_val threshold ps = Inr found" by auto
  then show ?case using Cons.prems by (auto simp: divide_by_def)
qed

lemma group_anomalies_total: "\<exists>found. group_anomalies m points = Inr found"
proof -
  let ?vs = "map p_value points"
  have "\<forall>p\<in>set points. \<bar>p_value p - np_mean ?vs\<bar> > m * np_std ?vs \<longrightarrow> np_std ?vs \<noteq> 0"
  proof (intro ballI impI notI)
    fix p assume p: "p \<in> set points" and gt: "\<bar>p_value p - np_mean ?vs\<bar> > m * np_std ?vs"
      and z: "np_std ?vs = 0"
    have "p_value p \<in> set ?vs" using p by simp
    with z have "p_value p = np_mean ?vs" by (rule np_std_zero_mean)
    then show False using gt z by simp
  qed
  then show ?thesis unfolding group_anomalies_def Let_def by (rule scan_points_total)
qed

lemma analyse_groups_total: "\<exists>found. analyse_groups m groups = Inr found"
proof (induction groups)
  case Nil
  then show ?case by simp
next
  case (Cons g groups)
  obtain k ps where g: "g = (k, ps)" by (cases g)
  obtain a where a: "group_anomalies m ps = Inr a" using group_anomalies_total by blast
  from Cons obtain b where "analyse_groups m groups = Inr b" by blast
  then show ?case by (simp add: g a)
qed

section \<open>Anomaly detection: the groups\<close>

lemma group_append_keys:
  "set (map fst (group_append k p g)) = insert k (set (map fst g))"
proof (induction g)
  case Nil
  then show ?case by simp
next
  case (Cons a g)
  obtain ka psa where a: "a = (ka, psa)" by (cases a)
  show ?case using Cons by (cases "k = ka") (simp_all add: a insert_commute)
qed

lemma group_append_distinct:
  "distinct (map fst g) \<Longrightarrow> distinct (map fst (group_append k p g))"
proof (induction g)
  case Nil
  then show ?case by simp
next
  case (Cons a g)
  obtain ka psa where a: "a = (ka, psa)" by (cases a)
  have "set (map fst (group_append k p g)) = insert k (set (map fst g))"
    by (rule group_append_keys)
  then show ?case using Cons a by (cases "k = ka") simp_all
qed

lemma group_append_map_of:
  "map_of (group_append k p g) =
   (map_of g)(k \<mapsto> (case map_of g k of None \<Rightarrow> [] | Some ps \<Rightarrow> ps) @ [p])"
  by (induction g) (auto simp: fun_eq_iff)

lemma group_by_snoc: "group_by key (rows @ [p]) = group_append (key p) p (group_by key rows)"
  by (simp add: group_by_def)

lemma group_by_distinct: "distinct (map fst (group_by key rows))"
proof (induction rows rule: rev_induct)
  case Nil
  then show ?case by (simp add: group_by_def)
next
  case (snoc p rows)
  then show ?case unfolding group_by_snoc by (rule group_append_distinct)
qed

lemma group_by_map_of:
  "map_of (group_by key rows) k =
   (if k \<in> key ` set rows then Some (filter (\<lambda>p. key p = k) rows) else None)"
proof (induction rows rule: rev_induct)
  case Nil
  then show ?case by (simp add: group_by_def)
next
  case (snoc p rows)
  show ?case
  proof (cases "k = key p")
    case True
    show ?thesis
    proof (cases "key p \<in> key ` set rows")
      case True
      then show ?thesis
        using snoc \<open>k = key p\<close> unfolding group_by_snoc group_append_map_of by simp
    next
      case False
      then have "filter (\<lambda>q. key q = key p) rows = []"
        by (force simp: filter_empty_conv image_iff)
      then show ?thesis
        using snoc False \<open>k = key p\<close>
        unfolding group_by_snoc group_append_map_of by simp
    qed
  next
    case False
    then show ?thesis using snoc unfolding group_by_snoc group_append_map_of by auto
  qed
qed

text \<open>Each group holds exactly the rows of its key, in the order of the scan.\<close>

lemma group_by_member:
  assumes "(k, ps) \<in> set (group_by key rows)"
  shows "ps = filter (\<lambda>p. key p = k) rows \<and> ps \<noteq> []"
proof -
  have "map_of (group_by key rows) k = Some ps"
    using assms group_by_distinct [of key rows] by (simp add: map_of_eq_Some_iff)
  then have "k \<in> key ` set rows" and "ps = filter (\<lambda>p. key p = k) rows"
    unfolding group_by_map_of by (auto split: if_splits)
  then show ?thesis by (auto simp: filter_empty_conv)
qed

lemma analyse_groups_small:
  "\<forall>(k, ps) \<in> set groups. length ps < 5 \<Longrightarrow> analyse_groups m groups = Inr []"
  by (induction groups) auto

lemma grouped_data_small:
  assumes "\<forall>p\<in>set data_points. length (filter (\<lambda>q. group_key q = group_key p) data_points) < 5"
  shows "analyse_groups m (grouped_data data_points) = Inr []"
proof (rule analyse_groups_small)
  show "\<forall>(k, ps) \<in> set (grouped_data data_points). length ps < 5"
  proof clarify
    fix k ps assume "(k, ps) \<in> set (grouped_data data_points)"
    then have "(k, ps) \<in> set (group_by group_key data_points)"
      by (simp add: grouped_data_def)
    then have both: "ps = filter (\<lambda>q. group_key q = k) data_points \<and> ps \<noteq> []"
      by (rule group_by_member)
    from both have ps: "ps = filter (\<lambda>q. group_key q = k) data_points" ..
    from both have ne: "ps \<noteq> []" ..
    from ne obtain p where "p \<in> set ps" by (cases ps) auto
    then have "p \<in> set data_points" and "group_key p = k" using ps by auto
    then show "length ps < 5" using assms ps by auto
  qed
qed


section \<open>Anomaly detection: groups are keyed by equipment id and sensor type\<close>

lemma sqrt_1296: "sqrt 1296 = 36"
  by (rule real_sqrt_unique) simp_all

lemma sqrt_729: "sqrt 729 = 27"
  by (rule real_sqrt_unique) simp_all

lemma two_sensor_window:
  "window_points 20 two_sensor_store (ex_request 1) = two_sensor_store"
  by (simp add: window_points_def two_sensor_store_def anomaly_scope_def ex_request_def
      ex_reading_def in_filter_def timedelta_hours_def)

lemma two_sensor_groups:
  "grouped_data two_sensor_store = [(''EQ1_temperature'', two_sensor_store)]"
  by (simp add: grouped_data_def group_by_def two_sensor_store_def group_key_def
      ex_reading_def ex_equipment_def ex_sensor_def)

lemma two_sensor_mean: "np_mean (map p_value two_sensor_store) = 28"
  by (simp add: two_sensor_store_def ex_reading_def np_mean_def)

lemma two_sensor_std: "np_std (map p_value two_sensor_store) = 36"
  unfolding np_std_def two_sensor_mean
  by (simp add: two_sensor_store_def ex_reading_def np_mean_def sqrt_1296)

lemma two_sensor_anomalies:
  "group_anomalies 1 two_sensor_store =
     Inr [\<lparr> a_equipment_id = ''EQ1'', a_sensor_type = ''temperature'', a_value = 100,
            a_expected_range = (- 8, 64), a_deviation = 2, a_timestamp = 9,
            a_severity = ''MEDIUM'' \<rparr>,
          \<lparr> a_equipment_id = ''EQ1'', a_sensor_type = ''temperature'', a_value = 100,
            a_expected_range = (- 8, 64), a_deviation = 2, a_timestamp = 10,
            a_severity = ''MEDIUM'' \<rparr>]"
  unfolding group_anomalies_def Let_def two_sensor_mean two_sensor_std
  by (simp add: two_sensor_store_def ex_reading_def ex_equipment_def ex_sensor_def
      divide_by_def)

lemma three_sensor_window:
  "window_points 20 three_sensor_store (ex_request 2) = three_sensor_store"
  by (simp add: window_points_def three_sensor_store_def anomaly_scope_def ex_request_def
      ex_reading_def in_filter_def timedelta_hours_def)

lemma three_sensor_groups:
  "grouped_data three_sensor_store = [(''EQ1_temperature'', three_sensor_store)]"
  by (simp add: grouped_data_def group_by_def three_sensor_store_def group_key_def
      ex_reading_def ex_equipment_def ex_sensor_def)

lemma three_sensor_mean: "np_mean (map p_value three_sensor_store) = 19"
  by (simp add: three_sensor_store_def ex_reading_def np_mean_def)

lemma three_sensor_std: "np_std (map p_value three_sensor_store) = 27"
  unfolding np_std_def three_sensor_mean
  by (simp add: three_sensor_store_def ex_reading_def np_mean_def sqrt_729)

lemma three_sensor_anomalies:
  "group_anomalies 2 three_sensor_store =
     Inr [\<lparr> a_equipment_id = ''EQ1'', a_sensor_type = ''temperature'', a_value = 100,
            a_expected_range = (- 35, 73), a_deviation = 3, a_timestamp = 10,
            a_severity = ''MEDIUM'' \<rparr>]"
  unfolding group_anomalies_def Let_def three_sensor_mean three_sensor_std
  by (simp add: three_sensor_store_def ex_reading_def ex_equipment_def ex_sensor_def
      divide_by_def)

text \<open>
  C4, as stated, fails. The eight readings of sensor 7 are all 10 and the two readings of
  sensor 8 are all 100: each (equipment, sensor) group is constant. The code keys its
  groups by equipment id and sensor type, puts the ten readings into one group (mean 28,
  deviation 36), and with the multiplier 1 reports both readings of sensor 8 as
  anomalies.
\<close>

theorem constant_sensor_group_flagged:
  "map p_value (filter (\<lambda>p. s_id (p_sensor p) = 7) two_sensor_store)
     = [10, 10, 10, 10, 10, 10, 10, 10]
   \<and> map p_value (filter (\<lambda>p. s_id (p_sensor p) = 8) two_sensor_store) = [100, 100]
   \<and> map p_timestamp (filter (\<lambda>p. s_id (p_sensor p) = 8) two_sensor_store) = [9, 10]
   \<and> detect_anomalies 20 two_sensor_store (ex_request 1) =
       Inr [(''analysis_period'',
               PDict [(''start'', PTime (- 86399999980)), (''end'', PTime 20),
                      (''hours'', PInt 24)]),
            (''threshold_multiplier'', PFloat 1),
            (''total_points_analyzed'', PInt 10),
            (''anomalies_detected'', PInt 2),
            (''anomalies'',
               PAnomalies
                 [\<lparr> a_equipment_id = ''EQ1'', a_sensor_type = ''temperature'', a_value = 100,
                    a_expected_range = (- 8, 64), a_deviation = 2, a_timestamp = 9,
                    a_severity = ''MEDIUM'' \<rparr>,
                  \<lparr> a_equipment_id = ''EQ1'', a_sensor_type = ''temperature'', a_value = 100,
                    a_expected_range = (- 8, 64), a_deviation = 2, a_timestamp = 10,
                    a_severity = ''MEDIUM'' \<rparr>])]"
proof -
  have a: "map p_value (filter (\<lambda>p. s_id (p_sensor p) = 7) two_sensor_store)
     = [10, 10, 10, 10, 10, 10, 10, 10]"
    by (simp add: two_sensor_store_def ex_reading_def)
  have b: "map p_value (filter (\<lambda>p. s_id (p_sensor p) = 8) two_sensor_store) = [100, 100]"
    by (simp add: two_sensor_store_def ex_reading_def)
  have c: "map p_timestamp (filter (\<lambda>p. s_id (p_sensor p) = 8) two_sensor_store) = [9, 10]"
    by (simp add: two_sensor_store_def ex_reading_def)
  have n: "length two_sensor_store = 10" by (simp add: two_sensor_store_def)
  have d: "analyse_groups 1 (grouped_data two_sensor_store)
     = Inr [\<lparr> a_equipment_id = ''EQ1'', a_sensor_type = ''temperature'', a_value = 100,
            a_expected_range = (- 8, 64), a_deviation = 2, a_timestamp = 9,
            a_severity = ''MEDIUM'' \<rparr>,
          \<lparr> a_equipment_id = ''EQ1'', a_sensor_type = ''temperature'', a_value = 100,
            a_expected_range = (- 8, 64), a_deviation = 2, a_timestamp = 10,
            a_severity = ''MEDIUM'' \<rparr>]"
    unfolding two_sensor_groups by (simp add: n two_sensor_anomalies)
  have r: "r_threshold_multiplier (ex_request 1) = 1" "r_lookback_hours (ex_request 1) = 24"
    by (simp_all add: ex_request_def)
  have e: "detect_anomalies 20 two_sensor_store (ex_request 1) =
       Inr [(''analysis_period'',
               PDict [(''start'', PTime (- 86399999980)), (''end'', PTime 20),
                      (''hours'', PInt 24)]),
            (''threshold_multiplier'', PFloat 1),
            (''total_points_analyzed'', PInt 10),
            (''anomalies_detected'', PInt 2),
            (''anomalies'',
               PAnomalies
                 [\<lparr> a_equipment_id = ''EQ1'', a_sensor_type = ''temperature'', a_value = 100,
                    a_expected_range = (- 8, 64), a_deviation = 2, a_timestamp = 9,
                    a_severity = ''MEDIUM'' \<rparr>,
                  \<lparr> a_equipment_id = ''EQ1'', a_sensor_type = ''temperature'', a_value = 100,
                    a_expected_range = (- 8, 64), a_deviation = 2, a_timestamp = 10,
                    a_severity = ''MEDIUM'' \<rparr>])]"
    unfolding detect_anomalies_def Let_def two_sensor_window r d
    by (simp add: n sort_by_deviation_def timedelta_hours_def)
  show ?thesis using a b c e by simp
qed

text \<open>
  C4, amended. A group is what the code analyses as one: the points of the window that
  share equipment id and sensor type. For such a group whose values are all equal, whose
  computed mean is that value and whose computed standard deviation is zero, and for
  every threshold multiplier, the analysis reports no anomaly and ends without a
  division by zero. (In exact arithmetic the two conditions on the computed statistics
  follow from the values being equal, by \<open>np_mean_constant\<close> and \<open>np_std_constant\<close>;
  what rounding does to them is not part of the statement.)
\<close>

theorem zero_deviation_group_no_anomalies:
  assumes "\<forall>p\<in>set points. p_value p = c"
    and "np_mean (map p_value points) = c"
    and "np_std (map p_value points) = 0"
  shows "group_anomalies m points = Inr []"
proof -
  have "\<forall>p\<in>set points. \<not> \<bar>p_value p - c\<bar> > m * 0" using assms(1) by simp
  then have "scan_points c 0 (m * 0) points = Inr []" by (rule scan_points_below)
  then show ?thesis unfolding group_anomalies_def Let_def assms(2) assms(3) .
qed

theorem zero_deviation_group_no_anomalies_witness:
  "np_mean (map p_value (map (ex_reading 7 ''S7'' 20) [1, 2, 3, 4, 5])) = 20
   \<and> np_std (map p_value (map (ex_reading 7 ''S7'' 20) [1, 2, 3, 4, 5])) = 0
   \<and> group_anomalies (1 / 2) (map (ex_reading 7 ''S7'' 20) [1, 2, 3, 4, 5]) = Inr []"
proof -
  let ?g = "map (ex_reading 7 ''S7'' 20) [1, 2, 3, 4, 5]"
  have a: "\<forall>p\<in>set ?g. p_value p = 20" by (simp add: ex_reading_def)
  have b: "np_mean (map p_value ?g) = 20" by (simp add: ex_reading_def np_mean_def)
  have c: "np_std (map p_value ?g) = 0"
    unfolding np_std_def b by (simp add: ex_reading_def np_mean_def)
  show ?thesis using b c zero_deviation_group_no_anomalies [OF a b c, of "1 / 2"] by simp
qed

section \<open>Anomaly detection: the claims\<close>



text \<open>
  C8. When the lookback window holds fewer than ten data points, the detector returns
  the response with the key \<open>message\<close> (and an empty anomaly list) and without the key
  \<open>total_points_analyzed\<close>; with ten or more points it returns a response that has
  the key \<open>total_points_analyzed\<close> and no key \<open>message\<close>. The two cannot be
  confused, also when the analysis finds nothing.
\<close>

theorem insufficient_data_result:
  "(length (window_points now store request) < 10 \<longrightarrow>
      detect_anomalies now store request =
        Inr [(''message'', PStr ''Insufficient data for anomaly detection''),
             (''anomalies'', PAnomalies [])])
   \<and> (\<not> length (window_points now store request) < 10 \<longrightarrow>
        (\<exists>r. detect_anomalies now store request = Inr r
           \<and> ''message'' \<notin> set (keys r)
           \<and> ''total_points_analyzed'' \<in> set (keys r)
           \<and> r \<noteq> [(''message'', PStr ''Insufficient data for anomaly detection''),
                   (''anomalies'', PAnomalies [])]))"
proof (intro conjI impI)
  assume "length (window_points now store request) < 10"
  then show "detect_anomalies now store request =
        Inr [(''message'', PStr ''Insufficient data for anomaly detection''),
             (''anomalies'', PAnomalies [])]"
    by (simp add: detect_anomalies_def Let_def)
next
  assume big: "\<not> length (window_points now store request) < 10"
  obtain found where
    "analyse_groups (r_threshold_multiplier request)
       (grouped_data (window_points now store request)) = Inr found"
    using analyse_groups_total by blast
  then show "\<exists>r. detect_anomalies now store request = Inr r
           \<and> ''message'' \<notin> set (keys r)
           \<and> ''total_points_analyzed'' \<in> set (keys r)
           \<and> r \<noteq> [(''message'', PStr ''Insufficient data for anomaly detection''),
                   (''anomalies'', PAnomalies [])]"
    using big by (simp add: detect_anomalies_def Let_def keys_def)
qed

theorem insufficient_data_result_witness:
  "length (window_points 0 spike_group (ex_request 2)) < 10
   \<and> detect_anomalies 0 spike_group (ex_request 2) =
        Inr [(''message'', PStr ''Insufficient data for anomaly detection''),
             (''anomalies'', PAnomalies [])]
   \<and> \<not> length (window_points 0 scattered_store (ex_request 2)) < 10
   \<and> (\<exists>r. detect_anomalies 0 scattered_store (ex_request 2) = Inr r
         \<and> ''message'' \<notin> set (keys r))"
proof -
  have a: "length (window_points 0 spike_group (ex_request 2)) < 10"
    by (simp add: window_points_def spike_group_def)
  have b: "\<not> length (window_points 0 scattered_store (ex_request 2)) < 10"
    by (simp add: window_points_def scattered_store_def anomaly_scope_def ex_request_def
        ex_point_def in_filter_def timedelta_hours_def)
  show ?thesis
    using a b insufficient_data_result [of 0 spike_group "ex_request 2"]
      insufficient_data_result [of 0 scattered_store "ex_request 2"]
    by blast
qed

text \<open>
  C10, as stated, fails. The ten readings come from three sensors of one equipment, four,
  four and two readings each, so every (equipment, sensor) group has fewer than five
  samples. The three sensors have the same type, the code puts the ten readings into one
  group (mean 19, deviation 27), and with the multiplier 2 the analysis reports the
  reading 100 as an anomaly.
\<close>

theorem small_sensor_groups_analysed:
  "length (window_points 20 three_sensor_store (ex_request 2)) = 10
   \<and> map (sensor_group_size (window_points 20 three_sensor_store (ex_request 2)))
        (window_points 20 three_sensor_store (ex_request 2))
      = [4, 4, 4, 4, 4, 4, 4, 4, 2, 2]
   \<and> detect_anomalies 20 three_sensor_store (ex_request 2) =
       Inr [(''analysis_period'',
               PDict [(''start'', PTime (- 86399999980)), (''end'', PTime 20),
                      (''hours'', PInt 24)]),
            (''threshold_multiplier'', PFloat 2),
            (''total_points_analyzed'', PInt 10),
            (''anomalies_detected'', PInt 1),
            (''anomalies'',
               PAnomalies
                 [\<lparr> a_equipment_id = ''EQ1'', a_sensor_type = ''temperature'', a_value = 100,
                    a_expected_range = (- 35, 73), a_deviation = 3, a_timestamp = 10,
                    a_severity = ''MEDIUM'' \<rparr>])]"
proof -
  have n: "length three_sensor_store = 10" by (simp add: three_sensor_store_def)
  have a: "map (sensor_group_size three_sensor_store) three_sensor_store
      = [4, 4, 4, 4, 4, 4, 4, 4, 2, 2]"
    by (simp add: three_sensor_store_def sensor_group_size_def ex_reading_def
        ex_equipment_def ex_sensor_def)
  have d: "analyse_groups 2 (grouped_data three_sensor_store)
     = Inr [\<lparr> a_equipment_id = ''EQ1'', a_sensor_type = ''temperature'', a_value = 100,
              a_expected_range = (- 35, 73), a_deviation = 3, a_timestamp = 10,
              a_severity = ''MEDIUM'' \<rparr>]"
    unfolding three_sensor_groups by (simp add: n three_sensor_anomalies)
  have r: "r_threshold_multiplier (ex_request 2) = 2" "r_lookback_hours (ex_request 2) = 24"
    by (simp_all add: ex_request_def)
  have e: "detect_anomalies 20 three_sensor_store (ex_request 2) =
       Inr [(''analysis_period'',
               PDict [(''start'', PTime (- 86399999980)), (''end'', PTime 20),
                      (''hours'', PInt 24)]),
            (''threshold_multiplier'', PFloat 2),
            (''total_points_analyzed'', PInt 10),
            (''anomalies_detected'', PInt 1),
            (''anomalies'',
               PAnomalies
                 [\<lparr> a_equipment_id = ''EQ1'', a_sensor_type = ''temperature'', a_value = 100,
                    a_expected_range = (- 35, 73), a_deviation = 3, a_timestamp = 10,
                    a_severity = ''MEDIUM'' \<rparr>])]"
    unfolding detect_anomalies_def Let_def three_sensor_window r d
    by (simp add: n sort_by_deviation_def timedelta_hours_def)
  show ?thesis unfolding three_sensor_window using n a e by simp
qed

text \<open>
  C10, amended. A group is what the code analyses as one: the points of the window that
  share equipment id and sensor type (the key \<open>group_key\<close>), whichever sensors they
  come from. When the lookback window holds at least ten data points and every such
  group has fewer than five of them, the detector returns the normal analysis response:
  the analysis period, the multiplier, the number of points in the window, zero
  anomalies detected and an empty anomaly list.
\<close>

theorem small_groups_empty_analysis:
  assumes "10 \<le> length (window_points now store request)"
    and "\<forall>p\<in>set (window_points now store request).
           length (filter (\<lambda>q. group_key q = group_key p) (window_points now store request)) < 5"
  shows "detect_anomalies now store request =
     Inr [(''analysis_period'',
             PDict [(''start'', PTime (now - timedelta_hours (r_lookback_hours request))),
                    (''end'', PTime now),
                    (''hours'', PInt (r_lookback_hours request))]),
          (''threshold_multiplier'', PFloat (r_threshold_multiplier request)),
          (''total_points_analyzed'', PInt (int (length (window_points now store request)))),
          (''anomalies_detected'', PInt 0),
          (''anomalies'', PAnomalies [])]"
proof -
  have "analyse_groups (r_threshold_multiplier request)
          (grouped_data (window_points now store request)) = Inr []"
    using assms(2) by (rule grouped_data_small)
  then show ?thesis
    using assms(1) by (simp add: detect_anomalies_def Let_def sort_by_deviation_def)
qed

theorem small_groups_empty_analysis_witness:
  "10 \<le> length (window_points 0 scattered_store (ex_request 2))
   \<and> detect_anomalies 0 scattered_store (ex_request 2) =
     Inr [(''analysis_period'',
             PDict [(''start'', PTime (- 86400000000)), (''end'', PTime 0), (''hours'', PInt 24)]),
          (''threshold_multiplier'', PFloat 2),
          (''total_points_analyzed'', PInt 10),
          (''anomalies_detected'', PInt 0),
          (''anomalies'', PAnomalies [])]"
proof -
  have w: "window_points 0 scattered_store (ex_request 2) = scattered_store"
    by (simp add: window_points_def scattered_store_def anomaly_scope_def ex_request_def
        ex_point_def in_filter_def timedelta_hours_def)
  have a: "10 \<le> length (window_points 0 scattered_store (ex_request 2))"
    unfolding w by (simp add: scattered_store_def)
  have b: "\<forall>p\<in>set (window_points 0 scattered_store (ex_request 2)).
           length (filter (\<lambda>q. group_key q = group_key p)
             (window_points 0 scattered_store (ex_request 2))) < 5"
    unfolding w by (simp add: scattered_store_def group_key_def ex_point_def ex_equipment_def
        ex_sensor_def)
  show ?thesis
    using a small_groups_empty_analysis [OF a b] unfolding w
    by (simp add: scattered_store_def ex_request_def timedelta_hours_def)
qed

section \<open>Aggregation: quality plays no part\<close>

lemma insort_key_map:
  "insort_key f (h x) (map h xs) = map h (insort_key (\<lambda>a. f (h a)) x xs)"
  by (induction xs) simp_all

lemma sort_key_map: "sort_key f (map h xs) = map h (sort_key (\<lambda>a. f (h a)) xs)"
  by (induction xs) (simp_all add: insort_key_map)

lemma group_append_map:
  "group_append k (h p) (map (apsnd (map h)) g) = map (apsnd (map h)) (group_append k p g)"
  by (induction g) auto

lemma group_by_map:
  assumes "\<And>p. key (h p) = key p"
  shows "group_by key (map h rows) = map (apsnd (map h)) (group_by key rows)"
proof (induction rows rule: rev_induct)
  case Nil
  then show ?case by (simp add: group_by_def)
next
  case (snoc p rows)
  have "group_by key (map h (rows @ [p])) = group_append (key p) (h p) (group_by key (map h rows))"
    using assms by (simp add: group_by_def)
  also have "\<dots> = map (apsnd (map h)) (group_append (key p) p (group_by key rows))"
    unfolding snoc by (rule group_append_map)
  finally show ?case by (simp add: group_by_snoc)
qed

text \<open>Rewriting the quality of every reading changes no aggregated row.\<close>

lemma aggregate_rows_quality:
  "aggregate_rows date_trunc aggregation unit (map (\<lambda>p. p\<lparr> p_quality := f p \<rparr>) rows)
     = aggregate_rows date_trunc aggregation unit rows"
proof -
  let ?h = "\<lambda>p. p\<lparr> p_quality := f p \<rparr>"
  let ?k = "\<lambda>((equipment_id :: string, sensor_type :: string, time_bucket :: datetime), ps :: point list).
              - time_bucket"
  have g: "group_by (sql_group_key date_trunc unit) (map ?h rows)
             = map (apsnd (map ?h)) (group_by (sql_group_key date_trunc unit) rows)"
    by (rule group_by_map) (simp add: sql_group_key_def)
  have k: "(\<lambda>a. ?k (apsnd (map ?h) a)) = ?k" by (auto simp: fun_eq_iff)
  show ?thesis
    unfolding aggregate_rows_def g sort_key_map k
    by (simp add: case_prod_beta comp_def)
qed

lemma query_scope_quality: "query_scope query (p\<lparr> p_quality := x \<rparr>) = query_scope query p"
  by (simp add: query_scope_def split: option.splits)

lemma filter_scope_quality:
  "filter (query_scope query) (map (\<lambda>p. p\<lparr> p_quality := f p \<rparr>) store)
     = map (\<lambda>p. p\<lparr> p_quality := f p \<rparr>) (filter (query_scope query) store)"
  by (induction store) (simp_all add: query_scope_quality)

text \<open>Each aggregated row is computed from all rows of its group.\<close>

lemma aggregate_rows_member:
  assumes "r \<in> set (aggregate_rows date_trunc aggregation unit rows)"
  shows "g_value r = agg_func aggregation (map p_value
           (filter (\<lambda>p. sql_group_key date_trunc unit p
                        = (g_equipment_id r, g_sensor_type r, g_time_bucket r)) rows))"
proof -
  let ?row = "\<lambda>((equipment_id, sensor_type, time_bucket), ps).
            \<lparr> g_equipment_id = equipment_id, g_sensor_type = sensor_type,
              g_time_bucket = time_bucket,
              g_value = agg_func aggregation (map p_value ps) \<rparr>"
  have "r \<in> ?row ` set (group_by (sql_group_key date_trunc unit) rows)"
    using assms unfolding aggregate_rows_def by simp
  then obtain x where x: "x \<in> set (group_by (sql_group_key date_trunc unit) rows)"
    and r: "r = ?row x" by (rule imageE)
  obtain a b c ps where xe: "x = ((a, b, c), ps)" by (metis prod_cases3 surj_pair)
  have "((a, b, c), ps) \<in> set (group_by (sql_group_key date_trunc unit) rows)"
    using x xe by simp
  then have "ps = filter (\<lambda>p. sql_group_key date_trunc unit p = (a, b, c)) rows \<and> ps \<noteq> []"
    by (rule group_by_member)
  then have ps: "ps = filter (\<lambda>p. sql_group_key date_trunc unit p = (a, b, c)) rows" ..
  have "r = \<lparr> g_equipment_id = a, g_sensor_type = b, g_time_bucket = c,
              g_value = agg_func aggregation (map p_value ps) \<rparr>"
    using r xe by simp
  then show ?thesis using ps by simp
qed

section \<open>Aggregation: the claim\<close>

text \<open>
  C1, as stated, fails. Of two readings of one sensor in one bucket, 1 with quality GOOD
  and 3 with quality BAD, the average is 2 and the maximum is 3: the bad reading is
  included. Without it both would be 1.
\<close>

theorem bad_reading_aggregated:
  "map p_quality mixed_quality_store = [''GOOD'', ''BAD'']
   \<and> map p_value mixed_quality_store = [1, 3]
   \<and> query_sensor_data hour_trunc mixed_quality_store (ex_query ''avg'') 0 1000
      = Inr [(''data'', PAggregates
                [\<lparr> g_equipment_id = ''EQ1'', g_sensor_type = ''temperature'',
                   g_time_bucket = 0, g_value = 2 \<rparr>]),
             (''aggregation'', PStr ''avg''), (''interval'', PStr ''1h''), (''count'', PInt 1)]
   \<and> query_sensor_data hour_trunc mixed_quality_store (ex_query ''max'') 0 1000
      = Inr [(''data'', PAggregates
                [\<lparr> g_equipment_id = ''EQ1'', g_sensor_type = ''temperature'',
                   g_time_bucket = 0, g_value = 3 \<rparr>]),
             (''aggregation'', PStr ''max''), (''interval'', PStr ''1h''), (''count'', PInt 1)]
   \<and> query_sensor_data hour_trunc
        (filter (\<lambda>p. p_quality p = ''GOOD'') mixed_quality_store) (ex_query ''avg'') 0 1000
      = Inr [(''data'', PAggregates
                [\<lparr> g_equipment_id = ''EQ1'', g_sensor_type = ''temperature'',
                   g_time_bucket = 0, g_value = 1 \<rparr>]),
             (''aggregation'', PStr ''avg''), (''interval'', PStr ''1h''), (''count'', PInt 1)]"
  by (simp add: query_sensor_data_def aggregate_rows_def group_by_def sql_group_key_def
      agg_func_def query_scope_def in_filter_def ex_query_def mixed_quality_store_def
      ex_point_def ex_equipment_def ex_sensor_def hour_trunc_def opt_str_def Let_def)

text \<open>
  C1, amended. For every aggregation other than raw (avg, min, max, count, and any other
  name, which is computed as avg) the quality of the readings plays no part: BAD and
  UNCERTAIN readings are included like GOOD ones. Rewriting the quality of every reading
  leaves the response unchanged, and the value of each returned row is the aggregate
  over all readings of its equipment, sensor type and time bucket that pass the
  equipment, type and time filters.
\<close>

theorem aggregation_ignores_quality:
  assumes "q_aggregation query \<noteq> Some ''raw''"
  shows "query_sensor_data date_trunc (map (\<lambda>p. p\<lparr> p_quality := f p \<rparr>) store) query skip limit
           = query_sensor_data date_trunc store query skip limit
    \<and> (\<forall>interval. q_interval query = Some interval \<longrightarrow>
         (\<exists>rows. query_sensor_data date_trunc store query skip limit
                    = Inr [(''data'', PAggregates rows),
                           (''aggregation'', opt_str (q_aggregation query)),
                           (''interval'', PStr interval),
                           (''count'', PInt (int (length rows)))]
            \<and> (\<forall>r\<in>set rows.
                 g_value r = agg_func (q_aggregation query) (map p_value
                   (filter (\<lambda>p. sql_group_key date_trunc (interval_unit interval) p
                                = (g_equipment_id r, g_sensor_type r, g_time_bucket r))
                      (filter (query_scope query) store))))))"
proof (intro conjI allI impI)
  show "query_sensor_data date_trunc (map (\<lambda>p. p\<lparr> p_quality := f p \<rparr>) store) query skip limit
           = query_sensor_data date_trunc store query skip limit"
    using assms
    by (simp add: query_sensor_data_def Let_def filter_scope_quality aggregate_rows_quality
        split: option.splits)
next
  fix interval assume i: "q_interval query = Some interval"
  let ?all = "aggregate_rows date_trunc (q_aggregation query) (interval_unit interval)
                (filter (query_scope query) store)"
  let ?rows = "take limit (drop skip ?all)"
  have "query_sensor_data date_trunc store query skip limit
          = Inr [(''data'', PAggregates ?rows),
                 (''aggregation'', opt_str (q_aggregation query)),
                 (''interval'', PStr interval),
                 (''count'', PInt (int (length ?rows)))]"
    using assms i by (simp add: query_sensor_data_def Let_def)
  moreover have "\<forall>r\<in>set ?rows.
      g_value r = agg_func (q_aggregation query) (map p_value
        (filter (\<lambda>p. sql_group_key date_trunc (interval_unit interval) p
                     = (g_equipment_id r, g_sensor_type r, g_time_bucket r))
           (filter (query_scope query) store)))"
  proof
    fix r assume "r \<in> set ?rows"
    then have "r \<in> set ?all" by (meson in_set_dropD in_set_takeD)
    then show "g_value r = agg_func (q_aggregation query) (map p_value
        (filter (\<lambda>p. sql_group_key date_trunc (interval_unit interval) p
                     = (g_equipment_id r, g_sensor_type r, g_time_bucket r))
           (filter (query_scope query) store)))"
      by (rule aggregate_rows_member)
  qed
  ultimately show "\<exists>rows. query_sensor_data date_trunc store query skip limit
                    = Inr [(''data'', PAggregates rows),
                           (''aggregation'', opt_str (q_aggregation query)),
                           (''interval'', PStr interval),
                           (''count'', PInt (int (length rows)))]
            \<and> (\<forall>r\<in>set rows.
                 g_value r = agg_func (q_aggregation query) (map p_value
                   (filter (\<lambda>p. sql_group_key date_trunc (interval_unit interval) p
                                = (g_equipment_id r, g_sensor_type r, g_time_bucket r))
                      (filter (query_scope query) store))))"
    by blast
qed

theorem aggregation_ignores_quality_witness:
  "q_aggregation (ex_query ''count'') \<noteq> Some ''raw''
   \<and> query_sensor_data hour_trunc
        (map (\<lambda>p. p\<lparr> p_quality := ''GOOD'' \<rparr>) mixed_quality_store) (ex_query ''count'') 0 1000
      = query_sensor_data hour_trunc mixed_quality_store (ex_query ''count'') 0 1000"
proof -
  have a: "q_aggregation (ex_query ''count'') \<noteq> Some ''raw''" by (simp add: ex_query_def)
  show ?thesis
    using a aggregation_ignores_quality [OF a, of hour_trunc "\<lambda>p. ''GOOD''" mixed_quality_store 0 1000]
    by blast
qed

section \<open>Monitoring: the claims\<close>

lemma health_status_cases:
  "health_status now equipment =
     (if \<not> e_is_connected equipment then ''OFFLINE''
      else (case e_last_heartbeat equipment of
              None \<Rightarrow> ''DEGRADED''
            | Some hb \<Rightarrow>
                if now \<noteq> hb \<and> total_seconds (now - hb) < 300 then ''HEALTHY''
                else ''DEGRADED''))"
  by (simp add: health_status_def time_since_heartbeat_def total_seconds_def Let_def
      split: option.splits)

text \<open>
  C5. An equipment that is connected and whose last heartbeat is the query time itself
  (zero seconds old, inside the window of 300 seconds) is reported DEGRADED by the code,
  because a time of 0.0 seconds is false in \<^verbatim>\<open>time_since_heartbeat and ...\<close>; the
  rule of the specification makes it HEALTHY.
\<close>

theorem heartbeat_at_query_time_degraded:
  "health_status now (equipment\<lparr> e_is_connected := True, e_last_heartbeat := Some now \<rparr>)
     = ''DEGRADED''
   \<and> deriveHealth now 300 (equipment\<lparr> e_is_connected := True, e_last_heartbeat := Some now \<rparr>)
     = ''HEALTHY''"
  by (simp add: health_status_cases deriveHealth_def total_seconds_def)

text \<open>Away from a heartbeat of age zero the code and the rule agree.\<close>

lemma health_status_deriveHealth:
  "e_last_heartbeat equipment \<noteq> Some now \<Longrightarrow>
   health_status now equipment = deriveHealth now 300 equipment"
  by (auto simp: health_status_cases deriveHealth_def split: option.splits)

text \<open>
  C9. The status of a latest reading is CRITICAL exactly when the critical threshold is
  set, is not zero and lies strictly below the value; WARNING exactly when that is not
  so and the warning threshold is set, is not zero and lies strictly below the value;
  NORMAL otherwise. A threshold of zero counts like no threshold, and the lower and upper
  bounds of the sensor play no part.
\<close>

theorem zero_threshold_as_absent:
  "(reading_status sensor v = ''CRITICAL'' \<longleftrightarrow>
      (\<exists>c. s_critical_threshold sensor = Some c \<and> c \<noteq> 0 \<and> c < v))
   \<and> (reading_status sensor v = ''WARNING'' \<longleftrightarrow>
        \<not> (\<exists>c. s_critical_threshold sensor = Some c \<and> c \<noteq> 0 \<and> c < v)
        \<and> (\<exists>w. s_warning_threshold sensor = Some w \<and> w \<noteq> 0 \<and> w < v))
   \<and> (reading_status sensor v = ''NORMAL'' \<longleftrightarrow>
        \<not> (\<exists>c. s_critical_threshold sensor = Some c \<and> c \<noteq> 0 \<and> c < v)
        \<and> \<not> (\<exists>w. s_warning_threshold sensor = Some w \<and> w \<noteq> 0 \<and> w < v))
   \<and> reading_status sensor v =
       reading_status
         (sensor\<lparr> s_warning_threshold := absent_if_zero (s_warning_threshold sensor),
                  s_critical_threshold := absent_if_zero (s_critical_threshold sensor) \<rparr>) v
   \<and> reading_status (sensor\<lparr> s_min_value := lo, s_max_value := hi \<rparr>) v
       = reading_status sensor v"
  by (cases "s_critical_threshold sensor"; cases "s_warning_threshold sensor")
     (auto simp: reading_status_def and_greater_def absent_if_zero_def)

theorem zero_threshold_as_absent_witness:
  "reading_status (ex_sensor ''temperature'' True
      \<lparr> s_warning_threshold := Some 0, s_critical_threshold := Some 0 \<rparr>) 5 = ''NORMAL''
   \<and> reading_status (ex_sensor ''temperature'' True
      \<lparr> s_min_value := Some 10, s_warning_threshold := Some 50 \<rparr>) 5 = ''NORMAL''
   \<and> reading_status (ex_sensor ''temperature'' True
      \<lparr> s_warning_threshold := Some 50, s_critical_threshold := Some 0 \<rparr>) 60 = ''WARNING''"
  using zero_threshold_as_absent
      [of "ex_sensor ''temperature'' True \<lparr> s_warning_threshold := Some 0, s_critical_threshold := Some 0 \<rparr>" 5]
    zero_threshold_as_absent
      [of "ex_sensor ''temperature'' True \<lparr> s_min_value := Some 10, s_warning_threshold := Some 50 \<rparr>" 5]
    zero_threshold_as_absent
      [of "ex_sensor ''temperature'' True \<lparr> s_warning_threshold := Some 50, s_critical_threshold := Some 0 \<rparr>" 60]
  by (simp add: ex_sensor_def)

section \<open>Ingestion: what a call commits\<close>

lemma split_topic: "split_on CHR ''/'' ''equipment/EQ1/temperature'' = [''equipment'', ''EQ1'', ''temperature'']"
  by simp

text \<open>Every state that \<open>store_sensor_data\<close> commits holds the new reading, appended to
  the table; the first of them has the equipment table as it was.\<close>

lemma store_sensor_data_rows:
  "\<forall>s\<in>set (committed (store_sensor_data rt db equipment_id sensor_type v t q protocol)).
     \<exists>row. db_sensor_data s = db_sensor_data db @ [row]
       \<and> d_value row = v \<and> d_timestamp row = t \<and> d_quality row = q
       \<and> d_source_protocol row = protocol"
  by (auto simp: store_sensor_data_def Let_def split: option.splits)

lemma store_sensor_data_first:
  "committed (store_sensor_data rt db equipment_id sensor_type v t q protocol) \<noteq> [] \<Longrightarrow>
   db_equipment (hd (committed (store_sensor_data rt db equipment_id sensor_type v t q protocol)))
     = db_equipment db"
  by (auto simp: store_sensor_data_def Let_def split: option.splits if_splits)

lemma store_sensor_data_unresolved:
  assumes "\<not> resolvable db equipment_id sensor_type"
  shows "store_sensor_data rt db equipment_id sensor_type v t q protocol
           = \<lparr> committed = [], logged = [EquipmentNotFound equipment_id] \<rparr>
         \<or> store_sensor_data rt db equipment_id sensor_type v t q protocol
           = \<lparr> committed = [], logged = [SensorNotFound equipment_id sensor_type] \<rparr>"
proof (cases "find_equipment db equipment_id")
  case None
  then show ?thesis by (simp add: store_sensor_data_def)
next
  case (Some e)
  then have e: "e \<in> set (db_equipment db)" "e_equipment_id e = equipment_id"
    by (auto simp: find_equipment_def find_Some_iff)
  have "find_sensor db e sensor_type = None"
  proof (rule ccontr)
    assume "find_sensor db e sensor_type \<noteq> None"
    then obtain s where "find_sensor db e sensor_type = Some s" by auto
    then have "s \<in> set (db_sensors db)" "s_equipment_id s = e_id e" "s_type s = sensor_type"
      by (auto simp: find_sensor_def find_Some_iff)
    with e have "resolvable db equipment_id sensor_type"
      unfolding resolvable_def list_ex_iff by blast
    with assms show False by simp
  qed
  with Some show ?thesis by (simp add: store_sensor_data_def)
qed

text \<open>A message handler commits nothing of its own: whatever it commits is committed by
  the one call of \<open>store_sensor_data\<close> it makes, with the hints of the topic or of the
  monitored node and the converted value.\<close>

lemma handle_message_cases:
  "committed (handle_message rt db message) = []
   \<or> (\<exists>payload v x ts qu.
        m_payload message = Some (JObj payload)
        \<and> dict_get payload ''value'' = Some v
        \<and> py_float (float_of_str rt) v = Inr x
        \<and> handle_message rt db message =
            store_sensor_data rt db (split_on CHR ''/'' (m_topic message) ! 1)
              (split_on CHR ''/'' (m_topic message) ! 2) x ts qu ''MQTT'')"
  by (auto simp: handle_message_def Let_def nothing_def handler_error_def
      split: option.splits json.splits sum.splits)

lemma process_node_data_cases:
  "committed (process_node_data rt db monitored_nodes node_id val t) = []
   \<or> (\<exists>equipment_id sensor_type x.
        monitored_nodes node_id = Some (equipment_id, sensor_type)
        \<and> process_node_data rt db monitored_nodes node_id val t =
            store_sensor_data rt db equipment_id sensor_type x t (JStr ''GOOD'') ''OPC_UA'')"
  by (auto simp: process_node_data_def nothing_def handler_error_def
      split: option.splits ua_value.splits)

section \<open>Ingestion: the claims\<close>

text \<open>
  C3, as stated, fails. Equipment EQ1 and its temperature sensor exist but are not
  active. An event for them does not resolve to an active pair, yet the code, which
  never reads the active flags, writes the reading and marks the equipment connected
  with a heartbeat.
\<close>

theorem inactive_equipment_ingested:
  "map e_is_active (db_equipment (ex_db False)) = [False]
   \<and> map s_is_active (db_sensors (ex_db False)) = [False]
   \<and> final_state (ex_db False)
        (store_sensor_data ex_rt (ex_db False) ''EQ1'' ''temperature'' (Finite 21) 100
           (JStr ''GOOD'') ''MQTT'')
      = \<lparr> db_equipment =
            [(ex_equipment ''EQ1'' False)\<lparr> e_is_connected := True, e_last_heartbeat := Some 600 \<rparr>],
          db_sensors = [ex_sensor ''temperature'' False],
          db_sensor_data = [ex_row (Finite 21) 100 ''MQTT''] \<rparr>"
  by (simp add: ex_db_def ex_rt_def ex_row_def ex_equipment_def ex_sensor_def
      store_sensor_data_def find_equipment_def find_sensor_def mark_seen_def final_state_def
      Let_def)

text \<open>
  C3, amended. When no equipment row with the event's equipment id has a sensor row with
  the event's sensor type (active or not), \<open>store_sensor_data\<close> commits nothing and
  writes one warning to the log, equipment not found or sensor not found; it returns no
  error value. The same holds for a whole MQTT message and for a whole OPC UA data
  change: the database, its readings and the connectivity of every equipment stay as
  they were.
\<close>

theorem unresolved_identity_dropped:
  "(\<not> resolvable db equipment_id sensor_type \<longrightarrow>
      committed (store_sensor_data rt db equipment_id sensor_type v t q protocol) = []
      \<and> final_state db (store_sensor_data rt db equipment_id sensor_type v t q protocol) = db
      \<and> (logged (store_sensor_data rt db equipment_id sensor_type v t q protocol)
            = [EquipmentNotFound equipment_id]
         \<or> logged (store_sensor_data rt db equipment_id sensor_type v t q protocol)
            = [SensorNotFound equipment_id sensor_type]))
   \<and> (\<not> resolvable db (split_on CHR ''/'' (m_topic message) ! 1)
                        (split_on CHR ''/'' (m_topic message) ! 2) \<longrightarrow>
        final_state db (handle_message rt db message) = db)
   \<and> (monitored_nodes node_id = Some (equipment_id, sensor_type)
        \<and> \<not> resolvable db equipment_id sensor_type \<longrightarrow>
        final_state db (process_node_data rt db monitored_nodes node_id val t) = db)"
proof -
  have a: "committed (store_sensor_data rt db equipment_id sensor_type v t q protocol) = []
      \<and> final_state db (store_sensor_data rt db equipment_id sensor_type v t q protocol) = db
      \<and> (logged (store_sensor_data rt db equipment_id sensor_type v t q protocol)
            = [EquipmentNotFound equipment_id]
         \<or> logged (store_sensor_data rt db equipment_id sensor_type v t q protocol)
            = [SensorNotFound equipment_id sensor_type])"
    if u: "\<not> resolvable db equipment_id sensor_type"
    using store_sensor_data_unresolved [OF u, of rt v t q protocol]
    by (auto simp: final_state_def)
  have nothing_committed: "committed (store_sensor_data rt db e_hint s_hint x ts qu pr) = []"
    if "\<not> resolvable db e_hint s_hint" for e_hint s_hint x ts qu pr
    using store_sensor_data_unresolved [OF that, of rt x ts qu pr] by auto
  have b: "final_state db (handle_message rt db message) = db"
    if u: "\<not> resolvable db (split_on CHR ''/'' (m_topic message) ! 1)
                        (split_on CHR ''/'' (m_topic message) ! 2)"
  proof -
    have "committed (handle_message rt db message) = []"
      using handle_message_cases [of rt db message] nothing_committed [OF u] by metis
    then show ?thesis by (simp add: final_state_def)
  qed
  have c: "final_state db (process_node_data rt db monitored_nodes node_id val t) = db"
    if n: "monitored_nodes node_id = Some (equipment_id, sensor_type)"
      and u: "\<not> resolvable db equipment_id sensor_type"
  proof -
    have "committed (process_node_data rt db monitored_nodes node_id val t) = []"
      using process_node_data_cases [of rt db monitored_nodes node_id val t] n
        nothing_committed [OF u] by (metis option.inject prod.inject)
    then show ?thesis by (simp add: final_state_def)
  qed
  show ?thesis using a b c by blast
qed

theorem unresolved_identity_dropped_witness:
  "\<not> resolvable (ex_db True) ''EQ9'' ''temperature''
   \<and> final_state (ex_db True)
        (store_sensor_data ex_rt (ex_db True) ''EQ9'' ''temperature'' (Finite 21) 100
           (JStr ''GOOD'') ''MQTT'') = ex_db True
   \<and> \<not> resolvable (ex_db True) ''EQ1'' ''pressure''
   \<and> final_state (ex_db True)
        (handle_message ex_rt (ex_db True)
           \<lparr> m_topic = ''equipment/EQ1/pressure'',
             m_payload = Some (JObj [(''value'', JInt 3)]) \<rparr>) = ex_db True"
proof -
  have a: "\<not> resolvable (ex_db True) ''EQ9'' ''temperature''"
    by (simp add: resolvable_def ex_db_def ex_equipment_def)
  have b: "\<not> resolvable (ex_db True) ''EQ1'' ''pressure''"
    by (simp add: resolvable_def ex_db_def ex_equipment_def ex_sensor_def)
  have t: "split_on CHR ''/'' ''equipment/EQ1/pressure'' = [''equipment'', ''EQ1'', ''pressure'']"
    by simp
  show ?thesis
    using a b
      unresolved_identity_dropped [of "ex_db True" "''EQ9''" "''temperature''" ex_rt "Finite 21"
        100 "JStr ''GOOD''" "''MQTT''"
        "\<lparr> m_topic = ''equipment/EQ1/pressure'', m_payload = Some (JObj [(''value'', JInt 3)]) \<rparr>"]
    by (simp add: t)
qed

text \<open>
  C6. Every database state that an ingestion makes visible by a commit holds the new
  reading, and the first of them still has the equipment table as it was: the reading is
  committed before the connected flag and the heartbeat, and no committed state shows the
  connectivity update without the reading. This holds whether the commits succeed or
  fail.
\<close>

theorem reading_committed_before_connectivity:
  "(\<forall>s\<in>set (committed (store_sensor_data rt db equipment_id sensor_type v t q protocol)).
      \<exists>row. db_sensor_data s = db_sensor_data db @ [row]
        \<and> d_value row = v \<and> d_timestamp row = t \<and> d_quality row = q
        \<and> d_source_protocol row = protocol)
   \<and> (committed (store_sensor_data rt db equipment_id sensor_type v t q protocol) \<noteq> [] \<longrightarrow>
        db_equipment (hd (committed (store_sensor_data rt db equipment_id sensor_type v t q protocol)))
          = db_equipment db)
   \<and> (\<forall>s\<in>set (committed (store_sensor_data rt db equipment_id sensor_type v t q protocol)).
        db_equipment s \<noteq> db_equipment db \<longrightarrow>
          length (db_sensor_data s) = Suc (length (db_sensor_data db)))"
proof (intro conjI)
  show a: "\<forall>s\<in>set (committed (store_sensor_data rt db equipment_id sensor_type v t q protocol)).
      \<exists>row. db_sensor_data s = db_sensor_data db @ [row]
        \<and> d_value row = v \<and> d_timestamp row = t \<and> d_quality row = q
        \<and> d_source_protocol row = protocol"
    by (rule store_sensor_data_rows)
  show "committed (store_sensor_data rt db equipment_id sensor_type v t q protocol) \<noteq> [] \<longrightarrow>
        db_equipment (hd (committed (store_sensor_data rt db equipment_id sensor_type v t q protocol)))
          = db_equipment db"
    using store_sensor_data_first by blast
  show "\<forall>s\<in>set (committed (store_sensor_data rt db equipment_id sensor_type v t q protocol)).
        db_equipment s \<noteq> db_equipment db \<longrightarrow>
          length (db_sensor_data s) = Suc (length (db_sensor_data db))"
    using a by fastforce
qed

theorem reading_committed_before_connectivity_witness:
  "committed (store_sensor_data ex_rt (ex_db True) ''EQ1'' ''temperature'' (Finite 21) 100
       (JStr ''GOOD'') ''MQTT'')
     = [\<lparr> db_equipment = [ex_equipment ''EQ1'' True],
          db_sensors = [ex_sensor ''temperature'' True],
          db_sensor_data = [ex_row (Finite 21) 100 ''MQTT''] \<rparr>,
        \<lparr> db_equipment =
            [(ex_equipment ''EQ1'' True)\<lparr> e_is_connected := True, e_last_heartbeat := Some 600 \<rparr>],
          db_sensors = [ex_sensor ''temperature'' True],
          db_sensor_data = [ex_row (Finite 21) 100 ''MQTT''] \<rparr>]
   \<and> db_equipment (hd (committed (store_sensor_data ex_rt (ex_db True) ''EQ1'' ''temperature''
        (Finite 21) 100 (JStr ''GOOD'') ''MQTT''))) = db_equipment (ex_db True)"
proof -
  have c: "committed (store_sensor_data ex_rt (ex_db True) ''EQ1'' ''temperature'' (Finite 21) 100
       (JStr ''GOOD'') ''MQTT'')
     = [\<lparr> db_equipment = [ex_equipment ''EQ1'' True],
          db_sensors = [ex_sensor ''temperature'' True],
          db_sensor_data = [ex_row (Finite 21) 100 ''MQTT''] \<rparr>,
        \<lparr> db_equipment =
            [(ex_equipment ''EQ1'' True)\<lparr> e_is_connected := True, e_last_heartbeat := Some 600 \<rparr>],
          db_sensors = [ex_sensor ''temperature'' True],
          db_sensor_data = [ex_row (Finite 21) 100 ''MQTT''] \<rparr>]"
    by (simp add: ex_db_def ex_rt_def ex_row_def ex_equipment_def ex_sensor_def
        store_sensor_data_def find_equipment_def find_sensor_def mark_seen_def Let_def)
  then have ne: "committed (store_sensor_data ex_rt (ex_db True) ''EQ1'' ''temperature'' (Finite 21) 100
       (JStr ''GOOD'') ''MQTT'') \<noteq> []" by simp
  show ?thesis
    using c ne reading_committed_before_connectivity
      [of ex_rt "ex_db True" "''EQ1''" "''temperature''" "Finite 21" 100 "JStr ''GOOD''" "''MQTT''"]
    by blast
qed




end
